theory Spec2Isabelle
  imports Complex_Main
begin

section \<open>Data model (models.py)\<close>

text \<open>
  A \<open>datetime\<close> is a point on the time line, counted in microseconds: the handlers only
  compare two of them and add a \<open>timedelta\<close> to one.  A string is a list of characters,
  each a code point below 256.  Every table is the list of its rows in insertion order; a
  nullable column is an \<open>option\<close>.
\<close>

text \<open>
  A \<open>db.Float\<close> grade comes back as a Python float: a binary number \<open>m * 2 ^ e\<close>, an
  infinity with its sign, or a NaN.  Every double is one of these values.  What the
  arithmetic on them returns is left to the Python runtime (see the dashboard).
\<close>

datatype pyfloat = Dyadic int int | Infinite bool | Not_a_number

fun float_value :: "pyfloat \<Rightarrow> real option" where
  "float_value (Dyadic m e) =
     Some (if 0 \<le> e then real_of_int m * 2 ^ nat e else real_of_int m / 2 ^ nat (- e))"
| "float_value (Infinite negative) = None"
| "float_value Not_a_number = None"

type_synonym datetime = int

record user =
  u_id :: int
  u_name :: string
  u_is_teacher :: bool

record homework =
  hw_id :: int
  hw_title :: string
  hw_subject :: string
  hw_description :: "string option"
  hw_due_date :: datetime
  hw_color :: string
  hw_created_at :: datetime

record thread =
  th_id :: int
  th_homework_id :: int
  th_author :: string
  th_message :: string
  th_created_at :: datetime

record resource =
  rs_id :: int
  rs_homework_id :: int
  rs_title :: "string option"
  rs_url :: string
  rs_created_at :: datetime

record submission =
  sb_id :: int
  sb_homework_id :: int
  sb_student_id :: int
  sb_content :: string
  sb_submitted_at :: datetime
  sb_grade :: "pyfloat option"
  sb_feedback :: "string option"

record store =
  users :: "user list"
  homeworks :: "homework list"
  threads :: "thread list"
  resources :: "resource list"
  submissions :: "submission list"

text \<open>
  An \<open>INTEGER PRIMARY KEY\<close> column that is left out of an insert gets one more than the
  largest key of the table, and 1 in an empty table.  (The keys are taken to stay below the
  largest 64-bit integer, where SQLite would look for an unused key instead.)
\<close>

definition next_id :: "int list \<Rightarrow> int" where
  "next_id ids = (case ids of [] \<Rightarrow> 1 | i # more_ids \<Rightarrow> fold max more_ids i + 1)"

text \<open>\<open>s.homework\<close>: the row of the homeworks table whose key is \<open>s.homework_id\<close>.\<close>

definition homework_of :: "store \<Rightarrow> submission \<Rightarrow> homework option" where
  "homework_of st s = find (\<lambda>h. hw_id h = sb_homework_id s) (homeworks st)"

section \<open>Requests, replies and exceptions (app.py)\<close>

datatype meth = GET | POST

type_synonym form = "string \<rightharpoonup> string"

text \<open>
  What leaves a handler through an exception: \<open>NotFound\<close> is the abort of
  \<open>get_or_404\<close>, \<open>BadRequestKeyError\<close> the one of \<open>request.form[key]\<close> on a missing
  field, the other three are Python's own and nothing in app.py catches them.
\<close>

datatype error = NotFound | BadRequestKeyError | ValueError | AttributeError | KeyError

text \<open>
  The five messages that app.py flashes, in the order of the file: "Homework created",
  "Comment posted", "Resource added", "Submission cannot be empty" and
  "Submitted successfully"; each goes with its category.
\<close>

datatype notice =
  Homework_created | Comment_posted | Resource_added | Submission_cannot_be_empty
  | Submitted_successfully

datatype category = Success | Warning

type_synonym flash = "notice \<times> category"

datatype endpoint = Index_page | Homework_detail_page int

record bucket =
  total :: int
  submitted :: int

record stats =
  st_total :: int
  st_pending :: int
  st_completed :: int
  st_avg_grade :: "pyfloat option"
  st_subjects :: "(string \<times> bucket) list"

datatype response =
  Redirect endpoint
  | Index_html "homework list"
  | Create_homework_html
  | Homework_detail_html homework "submission list"
  | Dashboard_html stats
  | Already_seeded
  | Seeded_sample_data

record reply =
  flashed :: "flash list"
  body :: response

type_synonym outcome = "store \<times> (error + reply)"

text \<open>\<open>x or d\<close> on a form field: the default stands in for a missing and for an empty value.\<close>

definition or_default :: "string option \<Rightarrow> string \<Rightarrow> string" where
  "or_default x d = (case x of None \<Rightarrow> d | Some s \<Rightarrow> if s = [] then d else s)"

text \<open>
  \<open>str.strip()\<close> removes the white space at both ends; below code point 256 Python counts
  as white space the characters 9 to 13, 28 to 32, 133 and 160.
\<close>

definition isspace :: "char \<Rightarrow> bool" where
  "isspace c = (let n = of_char c :: nat in
     (9 \<le> n \<and> n \<le> 13) \<or> (28 \<le> n \<and> n \<le> 32) \<or> n = 133 \<or> n = 160)"

definition strip :: "string \<Rightarrow> string" where
  "strip s = rev (dropWhile isspace (rev (dropWhile isspace s)))"

text \<open>\<open>Homework.query.get_or_404(hw_id)\<close>\<close>

definition get_or_404 :: "store \<Rightarrow> int \<Rightarrow> error + homework" where
  "get_or_404 st i =
     (case find (\<lambda>h. hw_id h = i) (homeworks st) of None \<Rightarrow> Inl NotFound | Some h \<Rightarrow> Inr h)"

section \<open>The homepage\<close>

text \<open>The three steps of the query of \<open>index\<close>: filter, order_by, limit.\<close>

definition upcoming :: "datetime \<Rightarrow> nat \<Rightarrow> store \<Rightarrow> homework list" where
  "upcoming now n st =
     take n (sort_key hw_due_date (filter (\<lambda>h. hw_due_date h \<ge> now) (homeworks st)))"

definition index :: "datetime \<Rightarrow> store \<Rightarrow> outcome" where
  "index now st = (st, Inr \<lparr>flashed = [], body = Index_html (upcoming now 10 st)\<rparr>)"

section \<open>Creating a homework\<close>

text \<open>
  \<open>datetime.fromisoformat\<close> belongs to Python's library: the handler takes it as the
  parameter \<open>parse\<close>, which answers \<open>None\<close> where the library raises ValueError.
\<close>

definition create_homework ::
  "(string \<Rightarrow> datetime option) \<Rightarrow> meth \<Rightarrow> form \<Rightarrow> datetime \<Rightarrow> store \<Rightarrow> outcome" where
  "create_homework parse m f now st =
     (if m = POST then
        (case f ''title'' of None \<Rightarrow> (st, Inl BadRequestKeyError) | Some title \<Rightarrow>
        (case f ''subject'' of None \<Rightarrow> (st, Inl BadRequestKeyError) | Some subject \<Rightarrow>
        (case f ''due_date'' of None \<Rightarrow> (st, Inl BadRequestKeyError) | Some d \<Rightarrow>
        (case parse d of None \<Rightarrow> (st, Inl ValueError) | Some due_date \<Rightarrow>
           (let color = or_default (f ''color'') ''#2d9cdb'';
                hw = \<lparr>hw_id = next_id (map hw_id (homeworks st)), hw_title = title,
                      hw_subject = subject, hw_description = f ''description'',
                      hw_due_date = due_date, hw_color = color, hw_created_at = now\<rparr>
            in (st\<lparr>homeworks := homeworks st @ [hw]\<rparr>,
                Inr \<lparr>flashed = [(Homework_created, Success)], body = Redirect Index_page\<rparr>))))))
      else (st, Inr \<lparr>flashed = [], body = Create_homework_html\<rparr>))"

text \<open>
  A model of \<open>datetime.fromisoformat\<close> for the strings \<open>YYYY-MM-DD\<close>, alone or followed by
  one separator character and \<open>HH\<close>, \<open>HH:MM\<close> or \<open>HH:MM:SS\<close>, every field of decimal
  digits and in range.  It leaves out the fraction of a second, the offset and the formats
  without dashes or colons, which the library reads too, and answers \<open>None\<close> on them as on
  any other string.  The value is the number of microseconds since the start of the day
  before 0001-01-01.
\<close>

definition is_digit :: "char \<Rightarrow> bool" where
  "is_digit c = (let n = of_char c :: nat in 48 \<le> n \<and> n \<le> 57)"

definition parse_digits :: "string \<Rightarrow> nat option" where
  "parse_digits s =
     (if s \<noteq> [] \<and> list_all is_digit s
      then Some (foldl (\<lambda>a c. 10 * a + (of_char c - 48)) 0 s) else None)"

definition is_leap :: "nat \<Rightarrow> bool" where
  "is_leap y = (y mod 4 = 0 \<and> (y mod 100 \<noteq> 0 \<or> y mod 400 = 0))"

definition days_in_month :: "nat \<Rightarrow> nat \<Rightarrow> nat" where
  "days_in_month y m =
     (if m = 2 then (if is_leap y then 29 else 28)
      else if m = 4 \<or> m = 6 \<or> m = 9 \<or> m = 11 then 30 else 31)"

definition days_before_year :: "nat \<Rightarrow> nat" where
  "days_before_year y = (let p = y - 1 in p * 365 + p div 4 - p div 100 + p div 400)"

definition days_before_month :: "nat \<Rightarrow> nat \<Rightarrow> nat" where
  "days_before_month y m = sum_list (map (days_in_month y) [1..<m])"

definition parse_isoformat_date :: "string \<Rightarrow> nat option" where
  "parse_isoformat_date s =
     (if length s = 10 \<and> s ! 4 = CHR ''-'' \<and> s ! 7 = CHR ''-'' then
        (case (parse_digits (take 4 s), parse_digits (take 2 (drop 5 s)),
               parse_digits (drop 8 s)) of
           (Some y, Some m, Some d) \<Rightarrow>
             if 1 \<le> y \<and> 1 \<le> m \<and> m \<le> 12 \<and> 1 \<le> d \<and> d \<le> days_in_month y m
             then Some (days_before_year y + days_before_month y m + d) else None
         | _ \<Rightarrow> None)
      else None)"

definition parse_isoformat_time :: "string \<Rightarrow> nat option" where
  "parse_isoformat_time s =
     (let n = length s in
      if (n = 2 \<or> n = 5 \<or> n = 8) \<and> (if 5 \<le> n then s ! 2 = CHR '':'' else True)
         \<and> (if 8 \<le> n then s ! 5 = CHR '':'' else True) then
        (case (parse_digits (take 2 s),
               if 5 \<le> n then parse_digits (take 2 (drop 3 s)) else Some 0,
               if 8 \<le> n then parse_digits (take 2 (drop 6 s)) else Some 0) of
           (Some hh, Some mm, Some ss) \<Rightarrow>
             if hh < 24 \<and> mm < 60 \<and> ss < 60 then Some ((hh * 60 + mm) * 60 + ss) else None
         | _ \<Rightarrow> None)
      else None)"

definition fromisoformat :: "string \<Rightarrow> datetime option" where
  "fromisoformat s =
     (case parse_isoformat_date (take 10 s) of None \<Rightarrow> None | Some days \<Rightarrow>
        if length s \<le> 10 then Some (int days * 86400 * 1000000)
        else
          (case parse_isoformat_time (drop 11 s) of None \<Rightarrow> None | Some secs \<Rightarrow>
             Some ((int days * 86400 + int secs) * 1000000)))"

section \<open>The detail page and its three forms\<close>

definition homework_detail :: "int \<Rightarrow> meth \<Rightarrow> form \<Rightarrow> datetime \<Rightarrow> store \<Rightarrow> outcome" where
  "homework_detail i m f now st =
     (case get_or_404 st i of Inl e \<Rightarrow> (st, Inl e) | Inr hw \<Rightarrow>
        if m = POST then
          (let author = or_default (f ''author'') ''Anonymous'';
               message = strip (case f ''message'' of None \<Rightarrow> [] | Some s \<Rightarrow> s)
           in if message \<noteq> [] then
                (st\<lparr>threads := threads st @
                    [\<lparr>th_id = next_id (map th_id (threads st)), th_homework_id = hw_id hw,
                      th_author = author, th_message = message, th_created_at = now\<rparr>]\<rparr>,
                 Inr \<lparr>flashed = [(Comment_posted, Success)],
                      body = Redirect (Homework_detail_page i)\<rparr>)
              else (st, Inr \<lparr>flashed = [], body = Redirect (Homework_detail_page i)\<rparr>))
        else (st, Inr \<lparr>flashed = [],
                body = Homework_detail_html hw
                         (filter (\<lambda>s. sb_homework_id s = hw_id hw) (submissions st))\<rparr>))"

definition add_resource :: "int \<Rightarrow> form \<Rightarrow> datetime \<Rightarrow> store \<Rightarrow> outcome" where
  "add_resource i f now st =
     (case get_or_404 st i of Inl e \<Rightarrow> (st, Inl e) | Inr hw \<Rightarrow>
        (let title = f ''title''; url = f ''url'' in
         if url \<noteq> None \<and> url \<noteq> Some [] then
           (st\<lparr>resources := resources st @
               [\<lparr>rs_id = next_id (map rs_id (resources st)), rs_homework_id = hw_id hw,
                 rs_title = title, rs_url = the url, rs_created_at = now\<rparr>]\<rparr>,
            Inr \<lparr>flashed = [(Resource_added, Success)],
                 body = Redirect (Homework_detail_page i)\<rparr>)
         else (st, Inr \<lparr>flashed = [], body = Redirect (Homework_detail_page i)\<rparr>)))"

text \<open>
  \<open>submit_homework\<close> looks the student up by name, adds and commits a new user when there
  is none, and only then reads the content.
\<close>

definition submit_homework :: "int \<Rightarrow> form \<Rightarrow> datetime \<Rightarrow> store \<Rightarrow> outcome" where
  "submit_homework i f now st =
     (case get_or_404 st i of Inl e \<Rightarrow> (st, Inl e) | Inr hw \<Rightarrow>
        (let student_name = or_default (f ''student_name'') ''Student'';
             (st1, student) =
               (case find (\<lambda>u. u_name u = student_name) (users st) of
                  Some u \<Rightarrow> (st, u)
                | None \<Rightarrow>
                    (let u = \<lparr>u_id = next_id (map u_id (users st)), u_name = student_name,
                              u_is_teacher = False\<rparr>
                     in (st\<lparr>users := users st @ [u]\<rparr>, u)));
             content = f ''content''
         in if content = None \<or> content = Some [] then
              (st1, Inr \<lparr>flashed = [(Submission_cannot_be_empty, Warning)],
                        body = Redirect (Homework_detail_page i)\<rparr>)
            else
              (st1\<lparr>submissions := submissions st1 @
                  [\<lparr>sb_id = next_id (map sb_id (submissions st1)), sb_homework_id = hw_id hw,
                    sb_student_id = u_id student, sb_content = the content,
                    sb_submitted_at = now, sb_grade = None, sb_feedback = None\<rparr>]\<rparr>,
               Inr \<lparr>flashed = [(Submitted_successfully, Success)],
                    body = Redirect (Homework_detail_page i)\<rparr>)))"

section \<open>The dashboard\<close>

text \<open>
  \<open>subjects\<close> is a dict from the subject to its bucket, kept as the list of its items in
  insertion order.  \<open>setdefault\<close> adds an item for a new key only; \<open>bump\<close> is
  \<open>subjects[k][field] += 1\<close>, which raises KeyError on a key that is not there.
\<close>

type_synonym subjects = "(string \<times> bucket) list"

definition setdefault :: "subjects \<Rightarrow> string \<Rightarrow> bucket \<Rightarrow> subjects" where
  "setdefault d k v = (if map_of d k = None then d @ [(k, v)] else d)"

definition bump :: "(bucket \<Rightarrow> bucket) \<Rightarrow> subjects \<Rightarrow> string \<Rightarrow> error + subjects" where
  "bump g d k =
     (if map_of d k = None then Inl KeyError
      else Inr (map (\<lambda>(k', b). if k' = k then (k', g b) else (k', b)) d))"

fun count_totals :: "subjects \<Rightarrow> homework list \<Rightarrow> error + subjects" where
  "count_totals d [] = Inr d"
| "count_totals d (hw # hws) =
     (let subj = hw_subject hw in
      case bump (\<lambda>b. b\<lparr>total := total b + 1\<rparr>)
             (setdefault d subj \<lparr>total = 0, submitted = 0\<rparr>) subj of
        Inl e \<Rightarrow> Inl e
      | Inr d' \<Rightarrow> count_totals d' hws)"

fun count_submitted :: "store \<Rightarrow> subjects \<Rightarrow> submission list \<Rightarrow> error + subjects" where
  "count_submitted st d [] = Inr d"
| "count_submitted st d (s # ss) =
     (case homework_of st s of
        None \<Rightarrow> Inl AttributeError
      | Some hw \<Rightarrow>
          (case bump (\<lambda>b. b\<lparr>submitted := submitted b + 1\<rparr>) d (hw_subject hw) of
             Inl e \<Rightarrow> Inl e
           | Inr d' \<Rightarrow> count_submitted st d' ss))"

text \<open>
  \<open>sum(grades) / len(grades)\<close> is float arithmetic of the Python runtime: the handler takes
  the sum of a list of floats and the division of a float by an int as the parameters
  \<open>float_sum\<close> and \<open>float_div\<close>.
\<close>

definition dashboard ::
  "(pyfloat list \<Rightarrow> pyfloat) \<Rightarrow> (pyfloat \<Rightarrow> int \<Rightarrow> pyfloat) \<Rightarrow> datetime \<Rightarrow> store \<Rightarrow> outcome" where
  "dashboard float_sum float_div now st =
     (let total = int (length (homeworks st));
          pending = int (length (filter (\<lambda>h. hw_due_date h \<ge> now) (homeworks st)));
          completed = int (length (remdups (map sb_homework_id (submissions st))));
          grades = map (\<lambda>s. the (sb_grade s)) (filter (\<lambda>s. sb_grade s \<noteq> None) (submissions st));
          avg_grade = (if grades \<noteq> [] then Some (float_div (float_sum grades) (int (length grades)))
                       else None)
      in case count_totals [] (homeworks st) of
           Inl e \<Rightarrow> (st, Inl e)
         | Inr d1 \<Rightarrow>
             (case count_submitted st d1 (submissions st) of
                Inl e \<Rightarrow> (st, Inl e)
              | Inr d2 \<Rightarrow>
                  (st, Inr \<lparr>flashed = [],
                         body = Dashboard_html
                           \<lparr>st_total = total, st_pending = pending, st_completed = completed,
                            st_avg_grade = avg_grade, st_subjects = d2\<rparr>\<rparr>)))"

section \<open>The seed route\<close>

definition days :: "int \<Rightarrow> int" where
  "days n = n * 86400000000"

text \<open>
  The three homeworks are added in the order of the list and take the next three keys;
  the resource and the thread point at the first of them.
\<close>

definition add_homework ::
  "string \<Rightarrow> string \<Rightarrow> string \<Rightarrow> datetime \<Rightarrow> string \<Rightarrow> datetime \<Rightarrow> store \<Rightarrow> store" where
  "add_homework title subject description due color now st =
     st\<lparr>homeworks := homeworks st @
        [\<lparr>hw_id = next_id (map hw_id (homeworks st)), hw_title = title, hw_subject = subject,
          hw_description = Some description, hw_due_date = due, hw_color = color,
          hw_created_at = now\<rparr>]\<rparr>"

definition seed :: "datetime \<Rightarrow> store \<Rightarrow> outcome" where
  "seed now st =
     (if length (homeworks st) > 0 then (st, Inr \<lparr>flashed = [], body = Already_seeded\<rparr>)
      else
        (let i1 = next_id (map hw_id (homeworks st));
             st1 = add_homework ''Algebra worksheet'' ''Math'' ''Exercises 1-10''
                     (now + days 3) ''#ff6b6b'' now st;
             st2 = add_homework ''Short essay'' ''English'' ''Topic: Climate''
                     (now + days 7) ''#ffd93d'' now st1;
             st3 = add_homework ''Chemistry lab'' ''Science'' ''Write the lab report''
                     (now + days 1) ''#2d9cdb'' now st2;
             r = \<lparr>rs_id = next_id (map rs_id (resources st3)), rs_homework_id = i1,
                   rs_title = Some ''Video explanation'',
                   rs_url = ''https://example.com/algebra-video'', rs_created_at = now\<rparr>;
             t = \<lparr>th_id = next_id (map th_id (threads st3)), th_homework_id = i1,
                   th_author = ''Teacher A'', th_message = ''Remember to show your steps.'',
                   th_created_at = now\<rparr>
         in (st3\<lparr>resources := resources st3 @ [r], threads := threads st3 @ [t]\<rparr>,
             Inr \<lparr>flashed = [], body = Seeded_sample_data\<rparr>)))"

section \<open>Notions used in the statements\<close>

text \<open>
  The schema makes \<open>homework_id\<close> a foreign key that is never null: every submission has
  a homework.  The dashboard reads \<open>s.homework.subject\<close> of every submission, so it
  depends on this.
\<close>

definition submissions_have_homework :: "store \<Rightarrow> bool" where
  "submissions_have_homework st = list_all (\<lambda>s. homework_of st s \<noteq> None) (submissions st)"

text \<open>The bucket of a subject once \<open>n\<close> more homeworks of that subject have been counted.\<close>

definition with_total :: "int \<Rightarrow> bucket option \<Rightarrow> bucket option" where
  "with_total n x =
     (case x of None \<Rightarrow> if n = 0 then None else Some \<lparr>total = n, submitted = 0\<rparr>
      | Some b \<Rightarrow> Some (b\<lparr>total := total b + n\<rparr>))"

text \<open>
  A store for the examples: a Math homework without submissions, an English homework with
  two submissions of Alice, one graded 90 and one not graded.
\<close>

definition math_hw :: homework where
  "math_hw = \<lparr>hw_id = 1, hw_title = ''Worksheet'', hw_subject = ''Math'',
              hw_description = None, hw_due_date = 100, hw_color = ''#ff6b6b'',
              hw_created_at = 0\<rparr>"

definition english_hw :: homework where
  "english_hw = \<lparr>hw_id = 2, hw_title = ''Essay'', hw_subject = ''English'',
                 hw_description = Some ''Two pages'', hw_due_date = 50,
                 hw_color = ''#2d9cdb'', hw_created_at = 0\<rparr>"

definition alice :: user where
  "alice = \<lparr>u_id = 1, u_name = ''Alice'', u_is_teacher = False\<rparr>"

definition graded_sub :: submission where
  "graded_sub = \<lparr>sb_id = 1, sb_homework_id = 2, sb_student_id = 1, sb_content = ''draft'',
                 sb_submitted_at = 10, sb_grade = Some (Dyadic 90 0),
                 sb_feedback = Some ''good''\<rparr>"

definition ungraded_sub :: submission where
  "ungraded_sub = \<lparr>sb_id = 2, sb_homework_id = 2, sb_student_id = 1, sb_content = ''final'',
                   sb_submitted_at = 20, sb_grade = None, sb_feedback = None\<rparr>"

definition example_store :: store where
  "example_store = \<lparr>users = [alice], homeworks = [math_hw, english_hw], threads = [],
                    resources = [], submissions = [graded_sub, ungraded_sub]\<rparr>"

text \<open>The same store with three submissions of the English homework, graded 1.0, 1.0 and 2.0.\<close>

definition graded_row :: "int \<Rightarrow> pyfloat \<Rightarrow> submission" where
  "graded_row k g = \<lparr>sb_id = k, sb_homework_id = 2, sb_student_id = 1, sb_content = ''essay'',
                     sb_submitted_at = 10, sb_grade = Some g, sb_feedback = None\<rparr>"

definition thirds_store :: store where
  "thirds_store = \<lparr>users = [alice], homeworks = [math_hw, english_hw], threads = [],
                   resources = [],
                   submissions = [graded_row 1 (Dyadic 1 0), graded_row 2 (Dyadic 1 0),
                                  graded_row 3 (Dyadic 1 1)]\<rparr>"

lemmas example_defs =
  example_store_def math_hw_def english_hw_def alice_def graded_sub_def ungraded_sub_def

section \<open>Blank and missing form fields\<close>

lemma strip_Nil_iff: "strip s = [] \<longleftrightarrow> list_all isspace s"
proof
  assume "strip s = []"
  then have all: "\<forall>x\<in>set (dropWhile isspace s). isspace x"
    by (simp add: strip_def dropWhile_eq_Nil_conv)
  have "dropWhile isspace s = []"
  proof (rule ccontr)
    assume ne: "dropWhile isspace s \<noteq> []"
    then have "\<not> isspace (hd (dropWhile isspace s))" by (rule hd_dropWhile)
    moreover from ne have "hd (dropWhile isspace s) \<in> set (dropWhile isspace s)" by simp
    ultimately show False using all by blast
  qed
  then have "\<forall>x\<in>set s. isspace x" by (simp only: dropWhile_eq_Nil_conv)
  then show "list_all isspace s" by (simp add: list_all_iff)
next
  assume "list_all isspace s"
  then have "\<forall>x\<in>set s. isspace x" by (simp add: list_all_iff)
  then have "dropWhile isspace s = []" by (simp only: dropWhile_eq_Nil_conv)
  then show "strip s = []" unfolding strip_def by (simp only: rev.simps dropWhile.simps)
qed

lemma get_or_404_example: "get_or_404 example_store 2 = Inr english_hw"
  by (simp add: get_or_404_def example_defs)

text \<open>
  C1, as the code has it: a submit request with a missing or empty content on a homework
  that exists adds no submission and flashes the warning.  The student has been looked up
  before the content is read, so a student name that is new to the users table
  ("Student" for a missing or empty name field) has got its row; but for that row the
  store is as it was.
\<close>

theorem submit_blank_content:
  assumes "get_or_404 st i = Inr hw"
    and "f ''content'' = None \<or> f ''content'' = Some []"
  shows "submissions (fst (submit_homework i f now st)) = submissions st
       \<and> snd (submit_homework i f now st) =
           Inr \<lparr>flashed = [(Submission_cannot_be_empty, Warning)],
                body = Redirect (Homework_detail_page i)\<rparr>
       \<and> fst (submit_homework i f now st) =
           (if find (\<lambda>u. u_name u = or_default (f ''student_name'') ''Student'') (users st) = None
            then st\<lparr>users := users st @
                   [\<lparr>u_id = next_id (map u_id (users st)),
                     u_name = or_default (f ''student_name'') ''Student'',
                     u_is_teacher = False\<rparr>]\<rparr>
            else st)"
  using assms by (auto simp: submit_homework_def Let_def split: option.splits)

theorem submit_blank_content_witness:
  "get_or_404 example_store 2 = Inr english_hw
   \<and> submit_homework 2 [''student_name'' \<mapsto> ''Alice'', ''content'' \<mapsto> []] 7 example_store =
       (example_store,
        Inr \<lparr>flashed = [(Submission_cannot_be_empty, Warning)],
             body = Redirect (Homework_detail_page 2)\<rparr>)
   \<and> submit_homework 2 Map.empty 7 example_store =
       (example_store\<lparr>users := [alice, \<lparr>u_id = 2, u_name = ''Student'', u_is_teacher = False\<rparr>]\<rparr>,
        Inr \<lparr>flashed = [(Submission_cannot_be_empty, Warning)],
             body = Redirect (Homework_detail_page 2)\<rparr>)"
proof -
  have h: "get_or_404 example_store 2 = Inr english_hw" by (rule get_or_404_example)
  have a: "find (\<lambda>u. u_name u = ''Alice'') (users example_store) = Some alice"
    and s: "find (\<lambda>u. u_name u = ''Student'') (users example_store) = None"
    and k: "next_id (map u_id (users example_store)) = 2"
    and u: "users example_store = [alice]"
    by (simp_all add: example_defs next_id_def)
  have "submit_homework 2 [''student_name'' \<mapsto> ''Alice'', ''content'' \<mapsto> []] 7 example_store =
       (example_store,
        Inr \<lparr>flashed = [(Submission_cannot_be_empty, Warning)],
             body = Redirect (Homework_detail_page 2)\<rparr>)"
    using submit_blank_content[OF h,
        of "[''student_name'' \<mapsto> ''Alice'', ''content'' \<mapsto> []]" 7]
    by (simp add: or_default_def a prod_eq_iff)
  moreover have "submit_homework 2 Map.empty 7 example_store =
       (example_store\<lparr>users := [alice, \<lparr>u_id = 2, u_name = ''Student'', u_is_teacher = False\<rparr>]\<rparr>,
        Inr \<lparr>flashed = [(Submission_cannot_be_empty, Warning)],
             body = Redirect (Homework_detail_page 2)\<rparr>)"
  proof -
    have n: "or_default (Map.empty ''student_name'') ''Student'' = ''Student''"
      by (simp add: or_default_def)
    from submit_blank_content[OF h, of Map.empty 7]
    have "fst (submit_homework 2 Map.empty 7 example_store) =
            example_store\<lparr>users := users example_store @
              [\<lparr>u_id = 2, u_name = ''Student'', u_is_teacher = False\<rparr>]\<rparr>
        \<and> snd (submit_homework 2 Map.empty 7 example_store) =
            Inr \<lparr>flashed = [(Submission_cannot_be_empty, Warning)],
                 body = Redirect (Homework_detail_page 2)\<rparr>"
      unfolding n s k by simp
    then show ?thesis by (simp add: u prod_eq_iff)
  qed
  ultimately show ?thesis using h by simp
qed

text \<open>
  C1 as the claim has it leaves the whole store unchanged, the users table too.  On the
  example store, with the new student name Bob and an empty content, the reply is the
  warning and no submission is added, but the users table has got the row of Bob.
\<close>

theorem submit_blank_content_new_student:
  "submit_homework 2 [''student_name'' \<mapsto> ''Bob'', ''content'' \<mapsto> []] 7 example_store =
     (example_store\<lparr>users := [alice, \<lparr>u_id = 2, u_name = ''Bob'', u_is_teacher = False\<rparr>]\<rparr>,
      Inr \<lparr>flashed = [(Submission_cannot_be_empty, Warning)],
           body = Redirect (Homework_detail_page 2)\<rparr>)"
  by (simp add: submit_homework_def get_or_404_def or_default_def next_id_def Let_def
      example_defs)

text \<open>
  C10: a submit request on an existing homework whose student name is missing or empty,
  and whose content is not blank, is not rejected: one submission is added, and its
  student is a user named "Student", the first row of that name when there is one and a
  new row, not a teacher, otherwise.
\<close>

theorem submit_default_student:
  assumes "get_or_404 st i = Inr hw"
    and "f ''student_name'' = None \<or> f ''student_name'' = Some []"
    and "f ''content'' = Some c" and "c \<noteq> []"
  shows "\<exists>u s. fst (submit_homework i f now st) =
            st\<lparr>users := (if find (\<lambda>u. u_name u = ''Student'') (users st) = None
                          then users st @ [u] else users st),
               submissions := submissions st @ [s]\<rparr>
          \<and> snd (submit_homework i f now st) =
              Inr \<lparr>flashed = [(Submitted_successfully, Success)],
                   body = Redirect (Homework_detail_page i)\<rparr>
          \<and> u_name u = ''Student''
          \<and> (if find (\<lambda>u. u_name u = ''Student'') (users st) = None
              then u_id u = next_id (map u_id (users st)) \<and> \<not> u_is_teacher u
              else find (\<lambda>u. u_name u = ''Student'') (users st) = Some u)
          \<and> sb_student_id s = u_id u \<and> sb_homework_id s = hw_id hw \<and> sb_content s = c
          \<and> sb_grade s = None"
proof -
  have nm: "or_default (f ''student_name'') ''Student'' = ''Student''"
    using assms(2) by (auto simp: or_default_def)
  show ?thesis
  proof (cases "find (\<lambda>u. u_name u = ''Student'') (users st)")
    case None
    show ?thesis
      apply (rule exI[of _ "\<lparr>u_id = next_id (map u_id (users st)), u_name = ''Student'',
                              u_is_teacher = False\<rparr>"])
      apply (rule exI[of _ "\<lparr>sb_id = next_id (map sb_id (submissions st)),
                              sb_homework_id = hw_id hw,
                              sb_student_id = next_id (map u_id (users st)), sb_content = c,
                              sb_submitted_at = now, sb_grade = None, sb_feedback = None\<rparr>"])
      using assms(1,3,4) None by (simp add: submit_homework_def Let_def nm)
  next
    case (Some u)
    then have "u_name u = ''Student''" by (auto simp: find_Some_iff)
    with Some show ?thesis
      apply -
      apply (rule exI[of _ u])
      apply (rule exI[of _ "\<lparr>sb_id = next_id (map sb_id (submissions st)),
                              sb_homework_id = hw_id hw,
                              sb_student_id = u_id u, sb_content = c,
                              sb_submitted_at = now, sb_grade = None, sb_feedback = None\<rparr>"])
      using assms(1,3,4) by (simp add: submit_homework_def Let_def nm)
  qed
qed

theorem submit_default_student_witness:
  "get_or_404 example_store 2 = Inr english_hw
   \<and> (\<exists>u s. fst (submit_homework 2 [''content'' \<mapsto> ''my essay''] 7 example_store) =
            example_store\<lparr>users := [alice, u],
                            submissions := [graded_sub, ungraded_sub, s]\<rparr>
          \<and> u = \<lparr>u_id = 2, u_name = ''Student'', u_is_teacher = False\<rparr>
          \<and> sb_student_id s = 2 \<and> sb_homework_id s = 2 \<and> sb_content s = ''my essay'')"
proof -
  have h: "get_or_404 example_store 2 = Inr english_hw" by (rule get_or_404_example)
  have n: "find (\<lambda>u. u_name u = ''Student'') (users example_store) = None"
    by (simp add: example_defs)
  have k: "next_id (map u_id (users example_store)) = 2"
    by (simp add: example_defs next_id_def)
  from submit_default_student[OF h, of "[''content'' \<mapsto> ''my essay'']" "''my essay''" 7]
  obtain u s where
    "fst (submit_homework 2 [''content'' \<mapsto> ''my essay''] 7 example_store) =
       example_store\<lparr>users := users example_store @ [u],
                       submissions := submissions example_store @ [s]\<rparr>"
    "u_name u = ''Student''" "u_id u = 2" "\<not> u_is_teacher u"
    "sb_student_id s = u_id u" "sb_homework_id s = hw_id english_hw" "sb_content s = ''my essay''"
    unfolding n k by auto
  then show ?thesis using h
    by (intro conjI exI[of _ u] exI[of _ s]) (simp_all add: example_defs)
qed

text \<open>
  C7: a thread post on an existing homework.  When the message is missing, empty or white
  space only, the store stays as it is and the reply is the plain redirect, with no error.
  Otherwise exactly one thread is added, for this homework, with the stripped message, and
  its author is "Anonymous" when the author field is missing or empty and the content of
  the field otherwise.
\<close>

theorem post_thread:
  assumes "get_or_404 st i = Inr hw"
  shows "(list_all isspace (case f ''message'' of None \<Rightarrow> [] | Some s \<Rightarrow> s) \<longrightarrow>
            homework_detail i POST f now st =
              (st, Inr \<lparr>flashed = [], body = Redirect (Homework_detail_page i)\<rparr>))
       \<and> (\<not> list_all isspace (case f ''message'' of None \<Rightarrow> [] | Some s \<Rightarrow> s) \<longrightarrow>
            (\<exists>t. homework_detail i POST f now st =
                   (st\<lparr>threads := threads st @ [t]\<rparr>,
                    Inr \<lparr>flashed = [(Comment_posted, Success)],
                         body = Redirect (Homework_detail_page i)\<rparr>)
                \<and> th_homework_id t = hw_id hw
                \<and> th_message t = strip (case f ''message'' of None \<Rightarrow> [] | Some s \<Rightarrow> s)
                \<and> th_author t = (if f ''author'' = None \<or> f ''author'' = Some []
                                 then ''Anonymous'' else the (f ''author''))))"
  using assms
  by (auto simp: homework_detail_def Let_def strip_Nil_iff or_default_def split: option.splits)

theorem post_thread_witness:
  "get_or_404 example_store 2 = Inr english_hw
   \<and> list_all isspace ''   ''
   \<and> homework_detail 2 POST [''message'' \<mapsto> ''   ''] 7 example_store =
       (example_store, Inr \<lparr>flashed = [], body = Redirect (Homework_detail_page 2)\<rparr>)
   \<and> \<not> list_all isspace '' hi ''
   \<and> (\<exists>t. homework_detail 2 POST [''message'' \<mapsto> '' hi ''] 7 example_store =
            (example_store\<lparr>threads := [t]\<rparr>,
             Inr \<lparr>flashed = [(Comment_posted, Success)],
                  body = Redirect (Homework_detail_page 2)\<rparr>)
         \<and> th_message t = ''hi'' \<and> th_author t = ''Anonymous'' \<and> th_homework_id t = 2)"
proof -
  have h: "get_or_404 example_store 2 = Inr english_hw" by (rule get_or_404_example)
  have b: "list_all isspace ''   ''" by (simp add: isspace_def)
  have nb: "\<not> list_all isspace '' hi ''" by (simp add: isspace_def)
  have s: "strip '' hi '' = ''hi''" by (simp add: strip_def isspace_def)
  have e: "threads example_store = []" "hw_id english_hw = 2" by (simp_all add: example_defs)
  show ?thesis
    using post_thread[OF h, of "[''message'' \<mapsto> ''   '']" 7]
      post_thread[OF h, of "[''message'' \<mapsto> '' hi '']" 7] h b nb
    by (simp add: s e isspace_def) blast
qed

text \<open>
  C8: an add-resource request on an existing homework leaves the store as it is exactly
  when the url field is missing or empty, and then replies with the plain redirect;
  otherwise it adds exactly one resource, with that url, the title of the form and this
  homework.
\<close>

theorem add_resource_ok:
  assumes "get_or_404 st i = Inr hw"
  shows "(if f ''url'' = None \<or> f ''url'' = Some []
          then add_resource i f now st =
                 (st, Inr \<lparr>flashed = [], body = Redirect (Homework_detail_page i)\<rparr>)
          else (\<exists>r. add_resource i f now st =
                  (st\<lparr>resources := resources st @ [r]\<rparr>,
                   Inr \<lparr>flashed = [(Resource_added, Success)],
                        body = Redirect (Homework_detail_page i)\<rparr>)
                \<and> f ''url'' = Some (rs_url r) \<and> rs_title r = f ''title''
                \<and> rs_homework_id r = hw_id hw))
         \<and> (fst (add_resource i f now st) = st \<longleftrightarrow> (f ''url'' = None \<or> f ''url'' = Some []))"
  using assms
  by (auto simp: add_resource_def Let_def
      dest: arg_cong[where f = "\<lambda>s. length (resources s)"])

theorem add_resource_ok_witness:
  "get_or_404 example_store 2 = Inr english_hw
   \<and> add_resource 2 [''title'' \<mapsto> ''Notes''] 7 example_store =
       (example_store, Inr \<lparr>flashed = [], body = Redirect (Homework_detail_page 2)\<rparr>)
   \<and> (\<exists>r. add_resource 2 [''url'' \<mapsto> ''https://example.com/notes''] 7 example_store =
            (example_store\<lparr>resources := [r]\<rparr>,
             Inr \<lparr>flashed = [(Resource_added, Success)],
                  body = Redirect (Homework_detail_page 2)\<rparr>)
         \<and> rs_url r = ''https://example.com/notes'' \<and> rs_homework_id r = 2)"
proof -
  have h: "get_or_404 example_store 2 = Inr english_hw" by (rule get_or_404_example)
  have e: "resources example_store = []" "hw_id english_hw = 2" by (simp_all add: example_defs)
  show ?thesis
    using add_resource_ok[OF h, of "[''title'' \<mapsto> ''Notes'']" 7]
      add_resource_ok[OF h, of "[''url'' \<mapsto> ''https://example.com/notes'']" 7] h
    by (simp add: e) metis
qed

section \<open>Creating a homework\<close>

text \<open>
  C3, as the code has it: on a POST with a title, a subject and a due date that parses,
  a missing or empty color gives the created homework the color "#2d9cdb"; with a due date
  that does not parse the ValueError of the parser leaves the handler, so there is neither
  a reply nor a notice, and the store is as before.
\<close>

theorem create_homework_ok:
  "(m = POST \<and> f ''title'' = Some title \<and> f ''subject'' = Some subject
      \<and> f ''due_date'' = Some d \<and> parse d = Some due
      \<and> (f ''color'' = None \<or> f ''color'' = Some []) \<longrightarrow>
      (\<exists>hw. create_homework parse m f now st =
          (st\<lparr>homeworks := homeworks st @ [hw]\<rparr>,
           Inr \<lparr>flashed = [(Homework_created, Success)], body = Redirect Index_page\<rparr>)
        \<and> hw_color hw = ''#2d9cdb'' \<and> hw_title hw = title \<and> hw_subject hw = subject
        \<and> hw_due_date hw = due))
   \<and> (m = POST \<and> f ''title'' = Some title \<and> f ''subject'' = Some subject
      \<and> f ''due_date'' = Some d \<and> parse d = None \<longrightarrow>
      create_homework parse m f now st = (st, Inl ValueError))"
  by (auto simp: create_homework_def Let_def or_default_def)

lemmas iso_defs =
  fromisoformat_def parse_isoformat_date_def parse_isoformat_time_def parse_digits_def
  is_digit_def days_before_year_def days_before_month_def days_in_month_def is_leap_def Let_def

lemma fromisoformat_examples:
  "fromisoformat ''2030-01-01T10:00'' = Some 64029175200000000"
  "fromisoformat ''2030-02-30'' = None"
  "fromisoformat ''tomorrow'' = None"
  by (simp_all add: iso_defs upt_rec_numeral)

theorem create_homework_ok_witness:
  "(\<exists>hw. create_homework fromisoformat POST
            [''title'' \<mapsto> ''Essay'', ''subject'' \<mapsto> ''English'',
             ''due_date'' \<mapsto> ''2030-01-01T10:00''] 7 example_store =
          (example_store\<lparr>homeworks := [math_hw, english_hw, hw]\<rparr>,
           Inr \<lparr>flashed = [(Homework_created, Success)], body = Redirect Index_page\<rparr>)
        \<and> hw_color hw = ''#2d9cdb'' \<and> hw_due_date hw = 64029175200000000)
   \<and> create_homework fromisoformat POST
        [''title'' \<mapsto> ''Essay'', ''subject'' \<mapsto> ''English'',
         ''due_date'' \<mapsto> ''2030-02-30''] 7 example_store = (example_store, Inl ValueError)"
proof -
  have e: "homeworks example_store = [math_hw, english_hw]" by (simp add: example_defs)
  show ?thesis
    using create_homework_ok[of POST "[''title'' \<mapsto> ''Essay'', ''subject'' \<mapsto> ''English'',
             ''due_date'' \<mapsto> ''2030-01-01T10:00'']" "''Essay''" "''English''"
             "''2030-01-01T10:00''" fromisoformat 64029175200000000 7 example_store]
      create_homework_ok[of POST "[''title'' \<mapsto> ''Essay'', ''subject'' \<mapsto> ''English'',
             ''due_date'' \<mapsto> ''2030-02-30'']" "''Essay''" "''English''"
             "''2030-02-30''" fromisoformat 0 7 example_store]
    by (simp add: fromisoformat_examples e) blast
qed

text \<open>
  C3 as the claim has it asks for a notice in place of the exception.  On the due date
  "tomorrow" the handler ends in the ValueError, with no reply and so no notice.
\<close>

theorem create_homework_unparsed_due_date:
  "create_homework fromisoformat POST
     [''title'' \<mapsto> ''Essay'', ''subject'' \<mapsto> ''English'', ''due_date'' \<mapsto> ''tomorrow'']
     7 example_store = (example_store, Inl ValueError)"
  by (simp add: create_homework_def fromisoformat_examples)

section \<open>The homepage\<close>

text \<open>
  C6: for every store, time and limit, the upcoming list holds only homeworks of the store
  that are due at or after the given time, is ascending in the due date and has at most
  limit items; the homepage shows the list for the limit 10.
\<close>

theorem upcoming_ok:
  "(\<forall>h \<in> set (upcoming now n st). h \<in> set (homeworks st) \<and> hw_due_date h \<ge> now)
   \<and> sorted (map hw_due_date (upcoming now n st))
   \<and> length (upcoming now n st) \<le> n
   \<and> index now st = (st, Inr \<lparr>flashed = [], body = Index_html (upcoming now 10 st)\<rparr>)"
  by (auto simp: upcoming_def index_def sorted_wrt_take take_map[symmetric] dest!: in_set_takeD)

lemma upcoming_examples:
  "upcoming 40 10 example_store = [english_hw, math_hw]"
  "upcoming 40 1 example_store = [english_hw]"
  "upcoming 60 10 example_store = [math_hw]"
  by (simp_all add: upcoming_def example_defs)

theorem upcoming_ok_witness:
  "upcoming 40 10 example_store = [english_hw, math_hw]
   \<and> upcoming 40 1 example_store = [english_hw]
   \<and> upcoming 60 10 example_store = [math_hw]
   \<and> sorted (map hw_due_date (upcoming 40 10 example_store))
   \<and> length (upcoming 40 1 example_store) \<le> 1
   \<and> hw_due_date math_hw \<ge> 60"
proof -
  have "math_hw \<in> set (upcoming 60 10 example_store)" by (simp add: upcoming_examples)
  with upcoming_ok[of 60 10 example_store] have "hw_due_date math_hw \<ge> 60" by blast
  moreover from upcoming_ok[of 40 10 example_store]
  have "sorted (map hw_due_date (upcoming 40 10 example_store))" by blast
  moreover from upcoming_ok[of 40 1 example_store]
  have "length (upcoming 40 1 example_store) \<le> 1" by blast
  ultimately show ?thesis by (simp only: upcoming_examples simp_thms)
qed

section \<open>The seed route\<close>

text \<open>
  C9: from any store, whatever the first call of the seed route did, a second call writes
  nothing and answers "Already seeded".
\<close>

theorem seed_twice:
  "seed now' (fst (seed now st)) =
     (fst (seed now st), Inr \<lparr>flashed = [], body = Already_seeded\<rparr>)"
  by (cases "homeworks st") (simp_all add: seed_def add_homework_def Let_def)

section \<open>The dashboard\<close>

lemma map_of_bumped:
  "map_of (map (\<lambda>(k', b). if k' = k then (k', g b) else (k', b)) d) j =
     (if j = k then map_option g (map_of d k) else map_of d j)"
  by (induction d) auto

lemma bump_Inr:
  "map_of d k \<noteq> None \<Longrightarrow>
     \<exists>d'. bump g d k = Inr d' \<and> map fst d' = map fst d
        \<and> (\<forall>j. map_of d' j = (if j = k then map_option g (map_of d k) else map_of d j))"
  by (auto simp: bump_def map_of_bumped split: prod.splits)

lemma map_of_setdefault:
  "map_of (setdefault d k v) j = (if j = k \<and> map_of d k = None then Some v else map_of d j)"
  by (auto simp: setdefault_def map_add_def split: option.splits)

lemma distinct_setdefault:
  "distinct (map fst d) \<Longrightarrow> distinct (map fst (setdefault d k v))"
  by (auto simp: setdefault_def map_of_eq_None_iff)

text \<open>The first loop never fails, and counts the homeworks of every subject.\<close>

lemma count_totals_Inr:
  "distinct (map fst d) \<Longrightarrow>
   \<exists>d'. count_totals d hws = Inr d' \<and> distinct (map fst d')
      \<and> (\<forall>k. map_of d' k =
            with_total (int (length (filter (\<lambda>h. hw_subject h = k) hws))) (map_of d k))"
proof (induction hws arbitrary: d)
  case Nil
  then show ?case by (auto simp: with_total_def split: option.splits)
next
  case (Cons hw hws)
  let ?d1 = "setdefault d (hw_subject hw) \<lparr>total = 0, submitted = 0\<rparr>"
  have "map_of ?d1 (hw_subject hw) \<noteq> None" by (simp add: map_of_setdefault)
  from bump_Inr[OF this, of "\<lambda>b. b\<lparr>total := total b + 1\<rparr>"]
  obtain d2 where d2: "bump (\<lambda>b. b\<lparr>total := total b + 1\<rparr>) ?d1 (hw_subject hw) = Inr d2"
    and keys: "map fst d2 = map fst ?d1"
    and look: "\<And>j. map_of d2 j = (if j = hw_subject hw
                  then map_option (\<lambda>b. b\<lparr>total := total b + 1\<rparr>) (map_of ?d1 (hw_subject hw))
                  else map_of ?d1 j)"
    by blast
  have "distinct (map fst d2)" using keys Cons.prems by (simp add: distinct_setdefault)
  from Cons.IH[OF this] obtain d' where d': "count_totals d2 hws = Inr d'"
    and dist: "distinct (map fst d')"
    and fin: "\<And>k. map_of d' k =
            with_total (int (length (filter (\<lambda>h. hw_subject h = k) hws))) (map_of d2 k)"
    by blast
  have "count_totals d (hw # hws) = Inr d'" using d2 d' by (simp add: Let_def)
  moreover have "map_of d' k =
      with_total (int (length (filter (\<lambda>h. hw_subject h = k) (hw # hws)))) (map_of d k)" for k
    unfolding fin look
    by (auto simp: with_total_def map_of_setdefault split: option.splits)
  ultimately show ?case using dist by blast
qed

text \<open>
  The second loop gets through when every submission has a homework whose subject is a key,
  and then counts the submissions of every subject.
\<close>

lemma count_submitted_Inr:
  "list_all (\<lambda>s. case homework_of st s of None \<Rightarrow> False
                 | Some h \<Rightarrow> map_of d (hw_subject h) \<noteq> None) ss \<Longrightarrow>
   \<exists>d'. count_submitted st d ss = Inr d' \<and> map fst d' = map fst d
      \<and> (\<forall>k. map_of d' k =
            map_option (\<lambda>b. b\<lparr>submitted := submitted b + int (length
                (filter (\<lambda>s. map_option hw_subject (homework_of st s) = Some k) ss))\<rparr>)
              (map_of d k))"
proof (induction ss arbitrary: d)
  case Nil
  then show ?case by (simp add: option.map_ident)
next
  case (Cons s ss)
  from Cons.prems obtain h where h: "homework_of st s = Some h"
    and inb: "map_of d (hw_subject h) \<noteq> None"
    by (auto split: option.splits)
  from bump_Inr[OF inb, of "\<lambda>b. b\<lparr>submitted := submitted b + 1\<rparr>"]
  obtain d2 where d2: "bump (\<lambda>b. b\<lparr>submitted := submitted b + 1\<rparr>) d (hw_subject h) = Inr d2"
    and keys: "map fst d2 = map fst d"
    and look: "\<And>j. map_of d2 j = (if j = hw_subject h
                  then map_option (\<lambda>b. b\<lparr>submitted := submitted b + 1\<rparr>) (map_of d (hw_subject h))
                  else map_of d j)"
    by blast
  have "list_all (\<lambda>s. case homework_of st s of None \<Rightarrow> False
                 | Some h \<Rightarrow> map_of d2 (hw_subject h) \<noteq> None) ss"
    using Cons.prems by (auto simp: list_all_iff look split: option.splits)
  from Cons.IH[OF this] obtain d' where d': "count_submitted st d2 ss = Inr d'"
    and keys': "map fst d' = map fst d2"
    and fin: "\<And>k. map_of d' k =
            map_option (\<lambda>b. b\<lparr>submitted := submitted b + int (length
                (filter (\<lambda>s. map_option hw_subject (homework_of st s) = Some k) ss))\<rparr>)
              (map_of d2 k)"
    by blast
  have "count_submitted st d (s # ss) = Inr d'" using h d2 d' by simp
  moreover have "map_of d' k =
      map_option (\<lambda>b. b\<lparr>submitted := submitted b + int (length
          (filter (\<lambda>s. map_option hw_subject (homework_of st s) = Some k) (s # ss)))\<rparr>)
        (map_of d k)" for k
    unfolding fin look using h
    by (cases "map_of d k") auto
  ultimately show ?case using keys keys' by auto
qed

lemma count_submitted_Inr_D:
  "count_submitted st d ss = Inr d' \<Longrightarrow> list_all (\<lambda>s. homework_of st s \<noteq> None) ss"
  by (induction ss arbitrary: d) (auto split: option.splits sum.splits)

lemma subjects_Inr:
  assumes "submissions_have_homework st"
  shows "\<exists>d1 d2. count_totals [] (homeworks st) = Inr d1
           \<and> count_submitted st d1 (submissions st) = Inr d2
           \<and> distinct (map fst d2)
           \<and> (\<forall>k. map_of d2 k =
                (if k \<in> hw_subject ` set (homeworks st)
                 then Some \<lparr>total = int (length (filter (\<lambda>h. hw_subject h = k) (homeworks st))),
                            submitted = int (length (filter
                              (\<lambda>s. map_option hw_subject (homework_of st s) = Some k)
                              (submissions st)))\<rparr>
                 else None))"
proof -
  from count_totals_Inr[of "[]" "homeworks st"]
  obtain d1 where d1: "count_totals [] (homeworks st) = Inr d1"
    and dist: "distinct (map fst d1)"
    and look1: "\<And>k. map_of d1 k =
            with_total (int (length (filter (\<lambda>h. hw_subject h = k) (homeworks st)))) None"
    by auto
  have in1: "map_of d1 k \<noteq> None \<longleftrightarrow> k \<in> hw_subject ` set (homeworks st)" for k
    unfolding look1 by (auto simp: with_total_def filter_empty_conv)
  have "list_all (\<lambda>s. case homework_of st s of None \<Rightarrow> False
                 | Some h \<Rightarrow> map_of d1 (hw_subject h) \<noteq> None) (submissions st)"
    using assms unfolding submissions_have_homework_def list_all_iff in1
    by (auto simp: homework_of_def find_Some_iff split: option.splits)
  from count_submitted_Inr[OF this]
  obtain d2 where d2: "count_submitted st d1 (submissions st) = Inr d2"
    and keys: "map fst d2 = map fst d1"
    and look2: "\<And>k. map_of d2 k =
            map_option (\<lambda>b. b\<lparr>submitted := submitted b + int (length
                (filter (\<lambda>s. map_option hw_subject (homework_of st s) = Some k)
                   (submissions st)))\<rparr>)
              (map_of d1 k)"
    by blast
  have "map_of d2 k =
      (if k \<in> hw_subject ` set (homeworks st)
       then Some \<lparr>total = int (length (filter (\<lambda>h. hw_subject h = k) (homeworks st))),
                  submitted = int (length (filter
                    (\<lambda>s. map_option hw_subject (homework_of st s) = Some k)
                    (submissions st)))\<rparr>
       else None)" for k
    unfolding look2 look1
    by (auto simp: with_total_def filter_empty_conv)
  then show ?thesis using d1 d2 dist keys by auto
qed

text \<open>
  The dashboard renders its page exactly for the stores in which every submission has a
  homework, whatever the float arithmetic.
\<close>

lemma dashboard_returns:
  assumes "submissions_have_homework st"
  shows "\<exists>d. dashboard float_sum float_div now st =
               (st, Inr \<lparr>flashed = [], body = Dashboard_html d\<rparr>)"
  using subjects_Inr[OF assms] by (auto simp: dashboard_def Let_def)

lemma dashboard_page_D:
  assumes "dashboard float_sum float_div now st =
             (st', Inr \<lparr>flashed = fl, body = Dashboard_html d\<rparr>)"
  shows "submissions_have_homework st"
    and "st_total d = int (length (homeworks st))"
    and "st_completed d = int (length (remdups (map sb_homework_id (submissions st))))"
    and "st_avg_grade d =
           (if map (\<lambda>s. the (sb_grade s)) (filter (\<lambda>s. sb_grade s \<noteq> None) (submissions st)) \<noteq> []
            then Some (float_div
                   (float_sum (map (\<lambda>s. the (sb_grade s))
                                (filter (\<lambda>s. sb_grade s \<noteq> None) (submissions st))))
                   (int (length (map (\<lambda>s. the (sb_grade s))
                                (filter (\<lambda>s. sb_grade s \<noteq> None) (submissions st))))))
            else None)"
    and "\<exists>d1. count_totals [] (homeworks st) = Inr d1
           \<and> count_submitted st d1 (submissions st) = Inr (st_subjects d)"
  using assms
  by (auto simp: dashboard_def Let_def submissions_have_homework_def
      split: sum.splits dest: count_submitted_Inr_D)

lemma graded_concat:
  "map (\<lambda>s. the (sb_grade s)) (filter (\<lambda>s. sb_grade s \<noteq> None) ss) =
   concat (map (\<lambda>s. case sb_grade s of None \<Rightarrow> [] | Some g \<Rightarrow> [g]) ss)"
  by (induction ss) (auto split: option.splits)

lemma example_have_homework: "submissions_have_homework example_store"
  by (simp add: submissions_have_homework_def homework_of_def example_defs)

text \<open>
  C4: whenever the dashboard renders, and it does for every store in which each submission
  has a homework, its total is the number of homework rows and its completed is the number
  of distinct homework ids among the submission rows; the grades play no part.
\<close>

theorem dashboard_total_completed:
  "(submissions_have_homework st \<longrightarrow>
      (\<exists>d. dashboard float_sum float_div now st =
             (st, Inr \<lparr>flashed = [], body = Dashboard_html d\<rparr>)))
   \<and> (\<forall>d. dashboard float_sum float_div now st =
             (st, Inr \<lparr>flashed = [], body = Dashboard_html d\<rparr>) \<longrightarrow>
         st_total d = int (length (homeworks st))
       \<and> st_completed d = int (card (sb_homework_id ` set (submissions st))))"
proof (intro conjI allI impI)
  assume "submissions_have_homework st"
  then show "\<exists>d. dashboard float_sum float_div now st =
                   (st, Inr \<lparr>flashed = [], body = Dashboard_html d\<rparr>)"
    by (rule dashboard_returns)
next
  fix d assume d: "dashboard float_sum float_div now st =
                     (st, Inr \<lparr>flashed = [], body = Dashboard_html d\<rparr>)"
  show "st_total d = int (length (homeworks st))" by (rule dashboard_page_D(2)[OF d])
  have "length (remdups (map sb_homework_id (submissions st))) =
        card (sb_homework_id ` set (submissions st))"
    by (simp add: length_remdups_card_conv)
  then show "st_completed d = int (card (sb_homework_id ` set (submissions st)))"
    using dashboard_page_D(3)[OF d] by simp
qed

theorem dashboard_total_completed_witness:
  "submissions_have_homework example_store
   \<and> (\<forall>float_sum float_div.
        \<exists>d. dashboard float_sum float_div 60 example_store =
               (example_store, Inr \<lparr>flashed = [], body = Dashboard_html d\<rparr>)
           \<and> st_total d = 2 \<and> st_completed d = 1)"
proof (intro conjI allI)
  show "submissions_have_homework example_store" by (rule example_have_homework)
next
  fix float_sum float_div
  note t = dashboard_total_completed[where st = example_store and now = 60
      and float_sum = float_sum and float_div = float_div]
  from t example_have_homework obtain d where
    d: "dashboard float_sum float_div 60 example_store =
          (example_store, Inr \<lparr>flashed = [], body = Dashboard_html d\<rparr>)"
    by blast
  with t have "st_total d = int (length (homeworks example_store))"
    and "st_completed d = int (card (sb_homework_id ` set (submissions example_store)))"
    by blast+
  then have "st_total d = 2 \<and> st_completed d = 1" by (simp add: example_defs)
  with d show "\<exists>d. dashboard float_sum float_div 60 example_store =
                     (example_store, Inr \<lparr>flashed = [], body = Dashboard_html d\<rparr>)
                 \<and> st_total d = 2 \<and> st_completed d = 1"
    by blast
qed

text \<open>
  C5, as the code has it: whenever the dashboard renders, and it does for every store in
  which each submission has a homework, its average grade is missing exactly when no
  submission has a grade; otherwise it is the float that the division returns for the
  float sum of the grades of all submissions, taken in row order whatever their homework,
  and the number of these grades.
\<close>

theorem dashboard_avg_grade:
  "(submissions_have_homework st \<longrightarrow>
      (\<exists>d. dashboard float_sum float_div now st =
             (st, Inr \<lparr>flashed = [], body = Dashboard_html d\<rparr>)))
   \<and> (\<forall>d. dashboard float_sum float_div now st =
             (st, Inr \<lparr>flashed = [], body = Dashboard_html d\<rparr>) \<longrightarrow>
         (st_avg_grade d = None \<longleftrightarrow> list_all (\<lambda>s. sb_grade s = None) (submissions st))
       \<and> (\<not> list_all (\<lambda>s. sb_grade s = None) (submissions st) \<longrightarrow>
            st_avg_grade d =
              Some (float_div
                (float_sum (concat (map (\<lambda>s. case sb_grade s of None \<Rightarrow> [] | Some g \<Rightarrow> [g])
                                      (submissions st))))
                (int (length (filter (\<lambda>s. sb_grade s \<noteq> None) (submissions st)))))))"
proof (intro conjI allI impI)
  assume "submissions_have_homework st"
  then show "\<exists>d. dashboard float_sum float_div now st =
                   (st, Inr \<lparr>flashed = [], body = Dashboard_html d\<rparr>)"
    by (rule dashboard_returns)
next
  fix d assume d: "dashboard float_sum float_div now st =
                     (st, Inr \<lparr>flashed = [], body = Dashboard_html d\<rparr>)"
  have e: "filter (\<lambda>s. sb_grade s \<noteq> None) (submissions st) = [] \<longleftrightarrow>
           list_all (\<lambda>s. sb_grade s = None) (submissions st)"
    by (auto simp: filter_empty_conv list_all_iff)
  show "st_avg_grade d = None \<longleftrightarrow> list_all (\<lambda>s. sb_grade s = None) (submissions st)"
    using dashboard_page_D(4)[OF d] e by (simp del: not_None_eq split: if_splits)
  assume n: "\<not> list_all (\<lambda>s. sb_grade s = None) (submissions st)"
  have "st_avg_grade d =
      Some (float_div
        (float_sum (map (\<lambda>s. the (sb_grade s))
                     (filter (\<lambda>s. sb_grade s \<noteq> None) (submissions st))))
        (int (length (filter (\<lambda>s. sb_grade s \<noteq> None) (submissions st)))))"
    using dashboard_page_D(4)[OF d] e n by (simp del: not_None_eq)
  then show "st_avg_grade d =
      Some (float_div
        (float_sum (concat (map (\<lambda>s. case sb_grade s of None \<Rightarrow> [] | Some g \<Rightarrow> [g])
                              (submissions st))))
        (int (length (filter (\<lambda>s. sb_grade s \<noteq> None) (submissions st)))))"
    by (simp only: graded_concat)
qed

theorem dashboard_avg_grade_witness:
  "submissions_have_homework example_store
   \<and> \<not> list_all (\<lambda>s. sb_grade s = None) (submissions example_store)
   \<and> (\<forall>float_sum float_div.
        \<exists>d. dashboard float_sum float_div 60 example_store =
               (example_store, Inr \<lparr>flashed = [], body = Dashboard_html d\<rparr>)
           \<and> st_avg_grade d = Some (float_div (float_sum [Dyadic 90 0]) 1))"
proof (intro conjI allI)
  show "submissions_have_homework example_store" by (rule example_have_homework)
next
  show g: "\<not> list_all (\<lambda>s. sb_grade s = None) (submissions example_store)"
    by (simp add: example_defs)
  fix float_sum float_div
  note t = dashboard_avg_grade[where st = example_store and now = 60
      and float_sum = float_sum and float_div = float_div]
  from t example_have_homework obtain d where
    d: "dashboard float_sum float_div 60 example_store =
          (example_store, Inr \<lparr>flashed = [], body = Dashboard_html d\<rparr>)"
    by blast
  with t g have "st_avg_grade d =
      Some (float_div
        (float_sum (concat (map (\<lambda>s. case sb_grade s of None \<Rightarrow> [] | Some g \<Rightarrow> [g])
                              (submissions example_store))))
        (int (length (filter (\<lambda>s. sb_grade s \<noteq> None) (submissions example_store)))))"
    by blast
  then have "st_avg_grade d = Some (float_div (float_sum [Dyadic 90 0]) 1)"
    by (simp add: example_defs)
  with d show "\<exists>d. dashboard float_sum float_div 60 example_store =
                     (example_store, Inr \<lparr>flashed = [], body = Dashboard_html d\<rparr>)
                 \<and> st_avg_grade d = Some (float_div (float_sum [Dyadic 90 0]) 1)"
    by blast
qed

text \<open>No float has the value 4/3: three times a power of two is no power of two.\<close>

lemma power_of_two_mod_three: "(2::int) ^ n mod 3 = 1 \<or> (2::int) ^ n mod 3 = 2"
proof (induction n)
  case 0
  show ?case by simp
next
  case (Suc n)
  define x where "x = (2::int) ^ n"
  from Suc have "x mod 3 = 1 \<or> x mod 3 = 2" by (simp add: x_def)
  then have "(2 * x) mod 3 = 1 \<or> (2 * x) mod 3 = 2" by presburger
  then show ?case by (simp add: x_def)
qed

lemma three_not_dvd_power_of_two: "\<not> (3::int) dvd 2 ^ n"
proof
  assume "(3::int) dvd 2 ^ n"
  then have "(2::int) ^ n mod 3 = 0" by (simp only: dvd_eq_mod_eq_0)
  with power_of_two_mod_three[of n] show False by presburger
qed

lemma float_value_not_four_thirds: "float_value x \<noteq> Some (4 / 3)"
proof (cases x)
  case (Dyadic m e)
  show ?thesis
  proof (cases "0 \<le> e")
    case True
    have "real_of_int m * 2 ^ nat e \<noteq> 4 / 3"
    proof
      assume "real_of_int m * 2 ^ nat e = 4 / 3"
      then have "3 * (real_of_int m * 2 ^ nat e) = 4" by simp
      then have "real_of_int (3 * (m * 2 ^ nat e)) = real_of_int (2 ^ 2)" by simp
      then have "3 * (m * 2 ^ nat e) = (2::int) ^ 2" by (simp only: of_int_eq_iff)
      then have "(3::int) dvd 2 ^ 2" by (rule dvdI[OF sym])
      with three_not_dvd_power_of_two[of 2] show False by (rule notE)
    qed
    with Dyadic True show ?thesis by simp
  next
    case False
    have "real_of_int m / 2 ^ nat (- e) \<noteq> 4 / 3"
    proof
      assume "real_of_int m / 2 ^ nat (- e) = 4 / 3"
      then have "real_of_int m = 4 / 3 * 2 ^ nat (- e)" by (simp add: divide_eq_eq)
      then have "real_of_int m * 3 = 4 * 2 ^ nat (- e)" by simp
      then have "real_of_int (3 * m) = real_of_int (2 ^ (nat (- e) + 2))"
        by (simp add: power_add)
      then have "3 * m = (2::int) ^ (nat (- e) + 2)" by (simp only: of_int_eq_iff)
      then have "(3::int) dvd 2 ^ (nat (- e) + 2)" by (rule dvdI[OF sym])
      with three_not_dvd_power_of_two[of "nat (- e) + 2"] show False by (rule notE)
    qed
    with Dyadic False show ?thesis by simp
  qed
qed simp_all

text \<open>
  C5 as the claim has it makes the average grade equal to the arithmetic mean.  With the
  grades 1.0, 1.0 and 2.0 the mean is 4/3: whatever the float arithmetic, the dashboard
  renders with a float for these three grades and the count 3, and no float is 4/3.
\<close>

theorem avg_grade_not_the_mean:
  "map float_value [Dyadic 1 0, Dyadic 1 0, Dyadic 1 1] = [Some 1, Some 1, Some 2]
   \<and> (\<forall>float_sum float_div.
        \<exists>d. dashboard float_sum float_div 60 thirds_store =
               (thirds_store, Inr \<lparr>flashed = [], body = Dashboard_html d\<rparr>)
           \<and> st_avg_grade d =
               Some (float_div (float_sum [Dyadic 1 0, Dyadic 1 0, Dyadic 1 1]) 3)
           \<and> float_value (float_div (float_sum [Dyadic 1 0, Dyadic 1 0, Dyadic 1 1]) 3)
               \<noteq> Some ((1 + 1 + 2) / 3))"
proof (intro conjI allI)
  show "map float_value [Dyadic 1 0, Dyadic 1 0, Dyadic 1 1] = [Some 1, Some 1, Some 2]"
    by simp
next
  fix float_sum :: "pyfloat list \<Rightarrow> pyfloat" and float_div :: "pyfloat \<Rightarrow> int \<Rightarrow> pyfloat"
  have h: "submissions_have_homework thirds_store"
    by (simp add: submissions_have_homework_def homework_of_def thirds_store_def graded_row_def
        example_defs)
  from dashboard_returns[OF h] obtain d where
    d: "dashboard float_sum float_div 60 thirds_store =
          (thirds_store, Inr \<lparr>flashed = [], body = Dashboard_html d\<rparr>)"
    by blast
  have "st_avg_grade d = Some (float_div (float_sum [Dyadic 1 0, Dyadic 1 0, Dyadic 1 1]) 3)"
    using dashboard_page_D(4)[OF d] by (simp add: thirds_store_def graded_row_def)
  moreover have "float_value (float_div (float_sum [Dyadic 1 0, Dyadic 1 0, Dyadic 1 1]) 3)
      \<noteq> Some ((1 + 1 + 2) / 3)"
    using float_value_not_four_thirds[of "float_div (float_sum [Dyadic 1 0, Dyadic 1 0, Dyadic 1 1]) 3"]
    by simp
  ultimately show "\<exists>d. dashboard float_sum float_div 60 thirds_store =
               (thirds_store, Inr \<lparr>flashed = [], body = Dashboard_html d\<rparr>)
           \<and> st_avg_grade d =
               Some (float_div (float_sum [Dyadic 1 0, Dyadic 1 0, Dyadic 1 1]) 3)
           \<and> float_value (float_div (float_sum [Dyadic 1 0, Dyadic 1 0, Dyadic 1 1]) 3)
               \<noteq> Some ((1 + 1 + 2) / 3)"
    using d by blast
qed

text \<open>
  C2: whenever the dashboard renders, and it does for every store in which each submission
  has a homework, its subjects dict has one key for every subject of a homework and no
  other; the total of a subject is the number of homework rows of that subject, and its
  submitted is the number of submission rows whose homework has that subject, each
  submission counted once.
\<close>

theorem dashboard_subjects:
  "(submissions_have_homework st \<longrightarrow>
      (\<exists>d. dashboard float_sum float_div now st =
             (st, Inr \<lparr>flashed = [], body = Dashboard_html d\<rparr>)))
   \<and> (\<forall>d. dashboard float_sum float_div now st =
             (st, Inr \<lparr>flashed = [], body = Dashboard_html d\<rparr>) \<longrightarrow>
         distinct (map fst (st_subjects d))
       \<and> (\<forall>k. map_of (st_subjects d) k =
            (if k \<in> hw_subject ` set (homeworks st)
             then Some \<lparr>total = int (length (filter (\<lambda>h. hw_subject h = k) (homeworks st))),
                        submitted = int (length (filter
                          (\<lambda>s. map_option hw_subject (homework_of st s) = Some k)
                          (submissions st)))\<rparr>
             else None)))"
proof (intro conjI allI impI)
  assume "submissions_have_homework st"
  then show "\<exists>d. dashboard float_sum float_div now st =
                   (st, Inr \<lparr>flashed = [], body = Dashboard_html d\<rparr>)"
    by (rule dashboard_returns)
next
  fix d assume d: "dashboard float_sum float_div now st =
                     (st, Inr \<lparr>flashed = [], body = Dashboard_html d\<rparr>)"
  from subjects_Inr[OF dashboard_page_D(1)[OF d]] dashboard_page_D(5)[OF d]
  have s: "distinct (map fst (st_subjects d))
         \<and> (\<forall>k. map_of (st_subjects d) k =
              (if k \<in> hw_subject ` set (homeworks st)
               then Some \<lparr>total = int (length (filter (\<lambda>h. hw_subject h = k) (homeworks st))),
                          submitted = int (length (filter
                            (\<lambda>s. map_option hw_subject (homework_of st s) = Some k)
                            (submissions st)))\<rparr>
               else None))"
    by auto
  from s show "distinct (map fst (st_subjects d))" by simp
  fix k
  from s show "map_of (st_subjects d) k =
      (if k \<in> hw_subject ` set (homeworks st)
       then Some \<lparr>total = int (length (filter (\<lambda>h. hw_subject h = k) (homeworks st))),
                  submitted = int (length (filter
                    (\<lambda>s. map_option hw_subject (homework_of st s) = Some k)
                    (submissions st)))\<rparr>
       else None)"
    by simp
qed

theorem dashboard_subjects_witness:
  "submissions_have_homework example_store
   \<and> (\<forall>float_sum float_div.
        \<exists>d. dashboard float_sum float_div 60 example_store =
               (example_store, Inr \<lparr>flashed = [], body = Dashboard_html d\<rparr>)
           \<and> map_of (st_subjects d) ''Math'' = Some \<lparr>total = 1, submitted = 0\<rparr>
           \<and> map_of (st_subjects d) ''English'' = Some \<lparr>total = 1, submitted = 2\<rparr>
           \<and> map_of (st_subjects d) ''Science'' = None)"
proof (intro conjI allI)
  show "submissions_have_homework example_store" by (rule example_have_homework)
next
  fix float_sum float_div
  note t = dashboard_subjects[where st = example_store and now = 60
      and float_sum = float_sum and float_div = float_div]
  from t example_have_homework obtain d where
    d: "dashboard float_sum float_div 60 example_store =
          (example_store, Inr \<lparr>flashed = [], body = Dashboard_html d\<rparr>)"
    by blast
  with t have k: "\<And>k. map_of (st_subjects d) k =
      (if k \<in> hw_subject ` set (homeworks example_store)
       then Some \<lparr>total = int (length (filter (\<lambda>h. hw_subject h = k) (homeworks example_store))),
                  submitted = int (length (filter
                    (\<lambda>s. map_option hw_subject (homework_of example_store s) = Some k)
                    (submissions example_store)))\<rparr>
       else None)"
    by blast
  have "map_of (st_subjects d) ''Math'' = Some \<lparr>total = 1, submitted = 0\<rparr>"
    unfolding k by (simp add: homework_of_def example_defs)
  moreover have "map_of (st_subjects d) ''English'' = Some \<lparr>total = 1, submitted = 2\<rparr>"
    unfolding k by (simp add: homework_of_def example_defs)
  moreover have "map_of (st_subjects d) ''Science'' = None"
    unfolding k by (simp add: homework_of_def example_defs)
  ultimately show "\<exists>d. dashboard float_sum float_div 60 example_store =
               (example_store, Inr \<lparr>flashed = [], body = Dashboard_html d\<rparr>)
           \<and> map_of (st_subjects d) ''Math'' = Some \<lparr>total = 1, submitted = 0\<rparr>
           \<and> map_of (st_subjects d) ''English'' = Some \<lparr>total = 1, submitted = 2\<rparr>
           \<and> map_of (st_subjects d) ''Science'' = None"
    using d by blast
qed

section \<open>The handlers and the homework of a submission\<close>

lemma find_append_None:
  "find P (xs @ ys) \<noteq> None \<longleftrightarrow> find P xs \<noteq> None \<or> find P ys \<noteq> None"
  by (induction xs) auto

lemma have_homework_append:
  "submissions_have_homework st \<Longrightarrow>
   submissions_have_homework (st\<lparr>homeworks := homeworks st @ added\<rparr>)"
  by (auto simp: submissions_have_homework_def homework_of_def list_all_iff find_append_None
      simp del: not_None_eq)

lemma have_homework_other:
  "submissions_have_homework (st\<lparr>users := us\<rparr>) = submissions_have_homework st"
  "submissions_have_homework (st\<lparr>threads := ts\<rparr>) = submissions_have_homework st"
  "submissions_have_homework (st\<lparr>resources := rs\<rparr>) = submissions_have_homework st"
  by (simp_all add: submissions_have_homework_def homework_of_def)

lemma get_or_404_Inr_D:
  assumes "get_or_404 st i = Inr hw"
  shows "find (\<lambda>h. hw_id h = hw_id hw) (homeworks st) = Some hw"
proof -
  from assms have f: "find (\<lambda>h. hw_id h = i) (homeworks st) = Some hw"
    by (auto simp: get_or_404_def split: option.splits)
  then have "hw_id hw = i" by (auto simp: find_Some_iff)
  with f show ?thesis by simp
qed

text \<open>
  No handler takes a homework away and \<open>submit_homework\<close> adds a submission to a homework
  that it has found, so the handlers keep every submission with a homework.
\<close>

lemma handlers_keep_homework:
  assumes "submissions_have_homework st"
  shows "submissions_have_homework (fst (create_homework parse m f now st))"
    and "submissions_have_homework (fst (homework_detail i m f now st))"
    and "submissions_have_homework (fst (add_resource i f now st))"
    and "submissions_have_homework (fst (submit_homework i f now st))"
    and "submissions_have_homework (fst (seed now st))"
    and "submissions_have_homework (fst (index now st))"
    and "submissions_have_homework (fst (dashboard float_sum float_div now st))"
proof -
  show "submissions_have_homework (fst (create_homework parse m f now st))"
    using assms
    by (auto simp: create_homework_def Let_def have_homework_append split: option.splits)
  show "submissions_have_homework (fst (homework_detail i m f now st))"
    using assms by (auto simp: homework_detail_def Let_def have_homework_other split: sum.splits)
  show "submissions_have_homework (fst (add_resource i f now st))"
    using assms by (auto simp: add_resource_def Let_def have_homework_other split: sum.splits)
  show "submissions_have_homework (fst (seed now st))"
  proof (cases "homeworks st")
    case Nil
    have "fst (seed now st) = (st\<lparr>homeworks := homeworks st @ homeworks (fst (seed now st))\<rparr>)
            \<lparr>resources := resources (fst (seed now st)), threads := threads (fst (seed now st))\<rparr>"
      using Nil by (simp add: seed_def add_homework_def Let_def)
    then show ?thesis
      using have_homework_append[OF assms, of "homeworks (fst (seed now st))"]
      by (metis have_homework_other(2,3))
  next
    case (Cons h hs)
    then show ?thesis using assms by (simp add: seed_def)
  qed
  show "submissions_have_homework (fst (index now st))"
    using assms by (simp add: index_def)
  show "submissions_have_homework (fst (dashboard float_sum float_div now st))"
    using assms by (simp add: dashboard_def Let_def split: sum.splits)
  show "submissions_have_homework (fst (submit_homework i f now st))"
  proof (cases "get_or_404 st i")
    case (Inl e)
    then show ?thesis using assms by (simp add: submit_homework_def)
  next
    case (Inr hw)
    from get_or_404_Inr_D[OF this] show ?thesis
      using assms Inr
      by (auto simp: submit_homework_def Let_def submissions_have_homework_def homework_of_def
          split: option.splits)
  qed
qed

end
